theory Spec2Isabelle
  imports Complex_Main
begin

section \<open>The Coordinate type of number\_types/coordinates.py\<close>

text \<open>
  A \<open>Coordinate\<close> is a Python tuple of two numbers together with the attribute
  \<open>_is_rectangular\<close>. The two stored items are \<open>self[0]\<close> and \<open>self[1]\<close>; they are
  \<open>(x, y)\<close> when the flag is set and \<open>(r, theta)\<close> otherwise.

  Numbers are modelled as mathematical reals: Python's \<open>int\<close> and \<open>float\<close> with the
  rounding of \<open>float\<close> operations (and the overflow of \<open>float\<close> powers) left out.
  Everything stated below is therefore about what the code computes when no
  operation rounds. A statement whose truth depends on how \<open>math.cos\<close>,
  \<open>math.sin\<close> or \<open>math.atan\<close> round is outside this model.
\<close>

datatype coordinate =
  Coordinate (item0: real) (item1: real) (is_rectangular: bool)

text \<open>
  \<open>__new__(cls, x, y=None, is_rectangular=True)\<close>: the call \<open>Coordinate(x, y)\<close> with
  two numbers leaves the flag at its default \<open>True\<close>.
\<close>

definition Coordinate2 :: "real \<Rightarrow> real \<Rightarrow> coordinate" where
  "Coordinate2 a b = Coordinate a b True"

text \<open>\<open>math.tau = getattr(math, 'tau', 2 * math.pi)\<close>\<close>

definition tau :: real where
  "tau = 2 * pi"

text \<open>
  Python's \<open>a % b\<close> on numbers takes the sign of the divisor:
  \<open>a % b = a - b * floor(a / b)\<close>. The code only divides by \<open>math.tau\<close>.
\<close>

definition pymod :: "real \<Rightarrow> real \<Rightarrow> real" where
  "pymod a b = a - b * of_int \<lfloor>a / b\<rfloor>"

subsection \<open>Values, special-method results and exceptions\<close>

text \<open>
  The operands the operators can meet: a real number (\<open>int\<close>, \<open>float\<close>, \<open>bool\<close>,
  \<open>Fraction\<close>: every instance of \<open>numbers.Real\<close>), a \<open>complex\<close>, a string,
  \<open>None\<close>, or another Coordinate.
\<close>

datatype pyval =
  PyReal real
| PyComplex complex
| PyStr string
| PyNone
| PyCoord coordinate

fun isinstance_Coordinate :: "pyval \<Rightarrow> bool" where
  "isinstance_Coordinate (PyCoord c) = True"
| "isinstance_Coordinate v = False"

fun isinstance_Real :: "pyval \<Rightarrow> bool" where
  "isinstance_Real (PyReal k) = True"
| "isinstance_Real v = False"

text \<open>
  A binary special method either returns a value or the sentinel \<open>NotImplemented\<close>.
\<close>

datatype 'a dunder = NotImplemented | Returned 'a

datatype error = TypeError | ZeroDivisionError

text \<open>
  Python's true division of real numbers (\<open>from __future__ import division\<close>) raises
  \<open>ZeroDivisionError\<close> on a zero divisor, for \<open>int\<close> and \<open>float\<close> alike.
\<close>

definition py_truediv :: "real \<Rightarrow> real \<Rightarrow> error + real" where
  "py_truediv a b = (if b = 0 then Inl ZeroDivisionError else Inr (a / b))"

subsection \<open>Accessors and conversions\<close>

text \<open>
  The properties \<open>x\<close>, \<open>y\<close>, \<open>r\<close>, \<open>theta\<close> and the methods \<open>to_rect\<close>, \<open>to_polar\<close>,
  \<open>__pos__\<close> call each other in the source. They are defined here in an order that
  needs no recursion: in the polar branch of \<open>to_rect\<close> and of \<open>__pos__\<close> the
  receiver is polar, so its \<open>self.r\<close> and \<open>self.theta\<close> are the stored items; on the
  rectangular result of \<open>to_rect\<close> the property \<open>x\<close> is the first stored item. The
  equations of the source are then proved as they are written there
  (\<open>to_rect_source\<close>, \<open>x_source\<close>, \<open>y_source\<close>, \<open>pos_source\<close>, \<open>theta_source\<close>).
\<close>

definition to_rect :: "coordinate \<Rightarrow> coordinate" where
  "to_rect self =
     (if is_rectangular self then self
      else Coordinate (item0 self * cos (item1 self)) (item0 self * sin (item1 self)) True)"

definition x :: "coordinate \<Rightarrow> real" where
  "x self = (if is_rectangular self then item0 self else item0 (to_rect self))"

definition y :: "coordinate \<Rightarrow> real" where
  "y self = (if is_rectangular self then item1 self else item1 (to_rect self))"

text \<open>\<open>(self.x ** 2 + self.y ** 2) ** 0.5\<close>: the power \<open>0.5\<close> of a sum of squares.\<close>

definition r :: "coordinate \<Rightarrow> real" where
  "r self = (if is_rectangular self then sqrt ((x self)\<^sup>2 + (y self)\<^sup>2) else item0 self)"

definition abs_coordinate :: "coordinate \<Rightarrow> real" where
  "abs_coordinate self = r self"

definition pos :: "coordinate \<Rightarrow> coordinate" where
  "pos self =
     (if is_rectangular self then Coordinate (x self) (y self) True
      else Coordinate (r self) (pymod (item1 self) tau) False)"

text \<open>
  \<open>if self.x:\<close> tests \<open>self.x != 0\<close>, so the division \<open>self.y / self.x\<close> never sees a
  zero divisor.
\<close>

definition to_polar :: "coordinate \<Rightarrow> coordinate" where
  "to_polar self =
     (if is_rectangular self then
        (let theta =
           (if x self \<noteq> 0 then
              (let theta = arctan (y self / x self)
               in if x self < 0 then theta + pi else theta)
            else if y self \<noteq> 0 then
              (if y self > 0 then tau / 4 else tau * 3 / 4)
            else 0)
         in Coordinate (abs_coordinate self) theta False)
      else pos self)"

definition theta :: "coordinate \<Rightarrow> real" where
  "theta self = (if is_rectangular self then item1 (to_polar self) else item1 self)"

definition is_polar :: "coordinate \<Rightarrow> bool" where
  "is_polar self = (\<not> is_rectangular self)"

subsection \<open>Equality\<close>

text \<open>
  \<open>__eq__\<close> for an operand that is a Coordinate. The second test is the source's:
  it reads \<open>other.is_rectangular\<close> twice. The last line compares two rectangular
  instances, so the recursion ends after one step.
\<close>

function eq :: "coordinate \<Rightarrow> coordinate \<Rightarrow> bool" where
  "eq self other =
     (if is_rectangular other \<and> is_rectangular self then
        x self = x other \<and> y self = y other
      else if \<not> is_rectangular other \<and> \<not> is_rectangular other then
        r self = r other \<and> pymod (theta self) tau = pymod (theta other) tau
      else eq (to_rect self) (to_rect other))"
  by pat_completeness auto
termination
  by (relation "measure (\<lambda>(self, other). if is_rectangular self then 0 else 1)")
     (auto simp: to_rect_def)

declare eq.simps [simp del]

text \<open>
  The decision procedure in the words of the specification, for operands of mixed
  representation: convert both to rectangular and compare the components exactly.
\<close>

definition eq_mixed_spec :: "coordinate \<Rightarrow> coordinate \<Rightarrow> bool" where
  "eq_mixed_spec a b =
     (let ra = to_rect a; rb = to_rect b in x ra = x rb \<and> y ra = y rb)"

subsection \<open>Arithmetic\<close>

definition neg :: "coordinate \<Rightarrow> coordinate" where
  "neg self = pos (Coordinate (- item0 self) (- item1 self) (is_rectangular self))"

definition add :: "coordinate \<Rightarrow> pyval \<Rightarrow> coordinate dunder" where
  "add self other =
     (case other of
        PyCoord c \<Rightarrow>
          (let rect_self = to_rect self;
               other = to_rect c;
               added = Coordinate (x rect_self + x other) (y rect_self + y other) True
           in if \<not> is_rectangular self then Returned (to_polar added) else Returned added)
      | _ \<Rightarrow> NotImplemented)"

definition sub :: "coordinate \<Rightarrow> pyval \<Rightarrow> coordinate dunder" where
  "sub self other =
     (case other of
        PyCoord c \<Rightarrow>
          (let rect_self = to_rect self;
               other = neg (to_rect c);
               subtracted = Coordinate (x rect_self + x other) (y rect_self + y other) True
           in if \<not> is_rectangular self then Returned (to_polar subtracted)
              else Returned subtracted)
      | _ \<Rightarrow> NotImplemented)"

definition mul :: "coordinate \<Rightarrow> pyval \<Rightarrow> coordinate dunder" where
  "mul self other =
     (case other of
        PyReal k \<Rightarrow>
          (if is_rectangular self then Returned (Coordinate (x self * k) (y self * k) True)
           else Returned (pos (Coordinate (r self * k) (theta self) False)))
      | _ \<Rightarrow> NotImplemented)"

definition truediv :: "coordinate \<Rightarrow> pyval \<Rightarrow> error + coordinate dunder" where
  "truediv self other =
     (case other of
        PyReal k \<Rightarrow>
          (if is_rectangular self then
             (case py_truediv (x self) k of
                Inl e \<Rightarrow> Inl e
              | Inr a \<Rightarrow>
                  (case py_truediv (y self) k of
                     Inl e \<Rightarrow> Inl e
                   | Inr b \<Rightarrow> Inr (Returned (Coordinate a b True))))
           else
             (case py_truediv (r self) k of
                Inl e \<Rightarrow> Inl e
              | Inr a \<Rightarrow> Inr (Returned (pos (Coordinate a (theta self) False)))))
      | _ \<Rightarrow> Inr NotImplemented)"

subsection \<open>Rotation and approximate equality\<close>

text \<open>
  \<open>rotated = +type(self)(polar_self.r, polar_self.theta + angle)\<close>: the constructor
  is called with two arguments.
\<close>

definition rotate_coordinate :: "coordinate \<Rightarrow> real \<Rightarrow> coordinate" where
  "rotate_coordinate self angle =
     (let polar_self = to_polar self;
          rotated = pos (Coordinate2 (r polar_self) (theta polar_self + angle))
      in if is_rectangular self then to_rect rotated else rotated)"

text \<open>
  The expression \<open>self - other\<close>. Python calls \<open>self.__sub__(other)\<close>; when that
  returns \<open>NotImplemented\<close> it tries the reflected \<open>other.__rsub__(self)\<close>. None of
  the operand types modelled in \<open>pyval\<close> subtracts from a Coordinate (numbers return
  \<open>NotImplemented\<close> for a tuple subclass, \<open>str\<close> and \<open>None\<close> have no \<open>__rsub__\<close>),
  so the expression raises \<open>TypeError\<close>.
\<close>

definition reflected_sub :: "pyval \<Rightarrow> coordinate \<Rightarrow> coordinate dunder" where
  "reflected_sub other self = NotImplemented"

definition binary_subtract :: "coordinate \<Rightarrow> pyval \<Rightarrow> error + coordinate" where
  "binary_subtract self other =
     (case sub self other of
        Returned c \<Rightarrow> Inr c
      | NotImplemented \<Rightarrow>
          (case reflected_sub other self of
             Returned c \<Rightarrow> Inr c
           | NotImplemented \<Rightarrow> Inl TypeError))"

text \<open>\<open>equals(self, other, tolerance=1e-15)\<close>: \<open>abs(self - other) <= tolerance\<close>.\<close>

definition equals :: "coordinate \<Rightarrow> pyval \<Rightarrow> real \<Rightarrow> error + bool" where
  "equals self other tolerance =
     (case binary_subtract self other of
        Inl e \<Rightarrow> Inl e
      | Inr d \<Rightarrow> Inr (abs_coordinate d \<le> tolerance))"

section \<open>The source's equations for the accessors\<close>

lemma to_rect_is_rectangular: "is_rectangular (to_rect self)"
  by (simp add: to_rect_def)

lemma to_polar_not_rectangular: "\<not> is_rectangular (to_polar self)"
  by (simp add: to_polar_def pos_def Let_def)

lemma to_rect_source:
  "to_rect self =
     (if is_rectangular self then self
      else Coordinate (r self * cos (theta self)) (r self * sin (theta self)) True)"
  by (simp add: to_rect_def r_def theta_def)

lemma x_source: "x self = (if is_rectangular self then item0 self else x (to_rect self))"
  by (simp add: x_def to_rect_def)

lemma y_source: "y self = (if is_rectangular self then item1 self else y (to_rect self))"
  by (simp add: y_def to_rect_def)

lemma pos_source:
  "pos self =
     (if is_rectangular self then Coordinate (x self) (y self) True
      else Coordinate (r self) (pymod (theta self) tau) False)"
  by (simp add: pos_def theta_def)

lemma theta_source:
  "theta self = (if is_rectangular self then theta (to_polar self) else item1 self)"
  by (simp add: theta_def to_polar_def Let_def)

section \<open>Facts about the full turn and the remainder\<close>

lemma tau_ge_4: "4 \<le> tau"
  using pi_ge_two by (simp add: tau_def)

lemma pymod_0_tau: "pymod 0 tau = 0"
  by (simp add: pymod_def)

lemma pymod_1_tau: "pymod 1 tau = 1"
proof -
  have "\<lfloor>1 / tau\<rfloor> = 0"
    using tau_ge_4 by (simp add: floor_eq_iff)
  then show ?thesis by (simp add: pymod_def)
qed

section \<open>Rotation\<close>

text \<open>
  What \<open>rotate\<close> returns, for each representation of the receiver. The result is
  rectangular in both cases and its stored items are the radius and the new angle.
\<close>

lemma rotate_rectangular:
  "rotate_coordinate (Coordinate a b True) angle =
     Coordinate (r (Coordinate a b True)) (theta (Coordinate a b True) + angle) True"
  by (simp add: rotate_coordinate_def Let_def Coordinate2_def pos_def to_rect_def x_def y_def
      r_def theta_def to_polar_def abs_coordinate_def)

lemma rotate_polar:
  "rotate_coordinate (Coordinate a b False) angle = Coordinate a (pymod b tau + angle) True"
  by (simp add: rotate_coordinate_def Let_def Coordinate2_def pos_def to_rect_def x_def y_def
      r_def theta_def to_polar_def abs_coordinate_def)

lemma rotate_is_rectangular: "is_rectangular (rotate_coordinate self angle)"
  by (cases self) (simp add: rotate_coordinate_def Let_def Coordinate2_def pos_def to_rect_def)

lemma rotate_2_0: "rotate_coordinate (Coordinate2 2 0) angle = Coordinate 2 angle True"
  by (simp add: Coordinate2_def rotate_rectangular r_def theta_def x_def y_def to_polar_def
      abs_coordinate_def Let_def)

lemma equals_rectangular:
  "equals (Coordinate a b True) (PyCoord (Coordinate c d True)) tol =
     Inr (sqrt ((a - c)\<^sup>2 + (b - d)\<^sup>2) \<le> tol)"
  by (simp add: equals_def binary_subtract_def sub_def neg_def pos_def to_rect_def x_def y_def
      abs_coordinate_def r_def Let_def)

text \<open>
  C1. The claim: \<open>Coordinate(2,0).rotate(pi/2).equals(Coordinate(0,2), 1e-9)\<close> is true,
  and \<open>c.rotate(tau).equals(c, 1e-9)\<close> is true for every \<open>c\<close>. The code returns
  \<open>Coordinate(2, pi/2)\<close> for the first rotation and \<open>Coordinate(2, tau)\<close> for the full
  turn of \<open>Coordinate(2, 0)\<close>, both rectangular; they lie at distance at least \<open>2\<close> and
  \<open>tau\<close> from the expected points, so both comparisons return \<open>False\<close>.
\<close>

theorem rotate_quarter_turn_not_close:
  "equals (rotate_coordinate (Coordinate2 2 0) (pi / 2)) (PyCoord (Coordinate2 0 2)) (1 / 10 ^ 9)
     = Inr False
   \<and> equals (rotate_coordinate (Coordinate2 2 0) tau) (PyCoord (Coordinate2 2 0)) (1 / 10 ^ 9)
     = Inr False"
proof -
  have "2 \<le> sqrt (2\<^sup>2 + (pi / 2 - 2)\<^sup>2)"
    by (rule real_le_rsqrt) simp
  then have a: "\<not> sqrt ((2 - 0)\<^sup>2 + (pi / 2 - 2)\<^sup>2) \<le> 1 / 10 ^ 9"
    by simp
  have b: "\<not> sqrt ((2 - 2)\<^sup>2 + (tau - 0)\<^sup>2) \<le> 1 / 10 ^ 9"
    using tau_ge_4 by simp
  show ?thesis
    unfolding rotate_2_0 unfolding Coordinate2_def equals_rectangular using a b by simp
qed

text \<open>
  C2. The claim: \<open>c.rotate(angle)\<close> has the representation of the receiver. For the
  polar receiver \<open>Coordinate(1, 0, False)\<close> and the angle \<open>0\<close> the code returns the
  rectangular \<open>Coordinate(1, 0)\<close>.
\<close>

theorem rotate_polar_returns_rectangular:
  "\<not> is_rectangular (Coordinate 1 0 False)
   \<and> rotate_coordinate (Coordinate 1 0 False) 0 = Coordinate 1 0 True"
  by (simp add: rotate_polar pymod_0_tau)

section \<open>Division by zero\<close>

text \<open>
  C3, as amended. For every Coordinate \<open>c\<close>, in either representation, \<open>c / 0\<close> raises
  \<open>ZeroDivisionError\<close>: the division of the first component by the scalar raises
  before any Coordinate is built.
\<close>

theorem truediv_by_zero_raises:
  "truediv c (PyReal 0) = Inl ZeroDivisionError"
  by (simp add: truediv_def py_truediv_def)

text \<open>
  C3, as stated, says that \<open>c / 0\<close> produces a value and raises nothing. At
  \<open>Coordinate(1, 1)\<close> the code raises.
\<close>

theorem truediv_one_one_by_zero:
  "truediv (Coordinate2 1 1) (PyReal 0) = Inl ZeroDivisionError"
  by (simp add: truediv_def py_truediv_def Coordinate2_def)

section \<open>Strict equality of mixed representations\<close>

text \<open>
  With a polar receiver and a rectangular operand \<open>__eq__\<close> does convert both sides.
\<close>

lemma eq_polar_rectangular:
  "\<not> is_rectangular a \<Longrightarrow> is_rectangular b \<Longrightarrow> eq a b = eq_mixed_spec a b"
  by (subst eq.simps, subst eq.simps) (simp add: eq_mixed_spec_def to_rect_is_rectangular Let_def)

text \<open>
  With a rectangular receiver and a polar operand it compares \<open>r\<close> and
  \<open>theta % tau\<close> instead, also when the radius is negative.
\<close>

lemma eq_rectangular_polar:
  "is_rectangular a \<Longrightarrow> \<not> is_rectangular b \<Longrightarrow>
     eq a b = (r a = r b \<and> pymod (theta a) tau = pymod (theta b) tau)"
  by (subst eq.simps) simp

lemma eq_negative_radius:
  "eq (Coordinate2 (- 1) 0) (Coordinate (- 1) 0 False) = False
   \<and> eq_mixed_spec (Coordinate2 (- 1) 0) (Coordinate (- 1) 0 False) = True"
  by (simp add: eq.simps eq_mixed_spec_def Coordinate2_def r_def theta_def x_def y_def
      to_polar_def to_rect_def abs_coordinate_def Let_def)

text \<open>
  C4. The claim: for operands of mixed representation, in either order, \<open>a == b\<close> is
  decided by converting both to rectangular and comparing the components exactly.
  \<open>Coordinate(0, 0) == Coordinate(0, 1, False)\<close> compares two instances that both
  convert to \<open>(0, 0)\<close>; the code compares the angles \<open>0\<close> and \<open>1\<close> and returns \<open>False\<close>.
\<close>

theorem eq_rectangular_polar_compares_polar:
  "eq (Coordinate2 0 0) (Coordinate 0 1 False) = False
   \<and> eq_mixed_spec (Coordinate2 0 0) (Coordinate 0 1 False) = True"
  by (simp add: eq.simps eq_mixed_spec_def Coordinate2_def r_def theta_def x_def y_def
      to_polar_def to_rect_def abs_coordinate_def Let_def pymod_0_tau pymod_1_tau)

section \<open>The angle of a rectangular Coordinate\<close>

text \<open>
  C8. \<open>to_polar\<close> on a rectangular Coordinate \<open>(a, b)\<close>: when \<open>a\<close> is not zero the angle
  is \<open>atan(b / a)\<close>, plus \<open>pi\<close> when \<open>a < 0\<close>; when \<open>a\<close> is zero and \<open>b < 0\<close> the angle is
  \<open>3 tau / 4\<close>; \<open>Coordinate(-1, 0)\<close> has the angle \<open>pi\<close> and \<open>Coordinate(0, -2)\<close> has
  the angle \<open>3 tau / 4\<close>.
\<close>

theorem to_polar_angle:
  "(a \<noteq> 0 \<longrightarrow>
      to_polar (Coordinate2 a b) =
        Coordinate (sqrt (a\<^sup>2 + b\<^sup>2)) (arctan (b / a) + (if a < 0 then pi else 0)) False)
   \<and> (b < 0 \<longrightarrow> theta (Coordinate2 0 b) = 3 * tau / 4)
   \<and> theta (Coordinate2 (- 1) 0) = pi
   \<and> theta (Coordinate2 0 (- 2)) = 3 * tau / 4"
  by (simp add: to_polar_def theta_def Coordinate2_def x_def y_def r_def abs_coordinate_def
      Let_def)

theorem to_polar_angle_witness:
  "(- 1 :: real) \<noteq> 0 \<and> (- 2 :: real) < 0
   \<and> to_polar (Coordinate2 (- 1) (- 2)) = Coordinate (sqrt 5) (arctan 2 + pi) False
   \<and> theta (Coordinate2 0 (- 2)) = 3 * tau / 4"
  using to_polar_angle [of "- 1" "- 2"] by simp

section \<open>Unsupported operands\<close>

text \<open>
  C9. \<open>c + other\<close> and \<open>c - other\<close> return \<open>NotImplemented\<close> when \<open>other\<close> is not a
  Coordinate; \<open>c * other\<close> and \<open>c / other\<close> return \<open>NotImplemented\<close> when \<open>other\<close> is
  not a real number.
\<close>

theorem unsupported_operand_not_implemented:
  "(\<not> isinstance_Coordinate other \<longrightarrow>
      add c other = NotImplemented \<and> sub c other = NotImplemented)
   \<and> (\<not> isinstance_Real other \<longrightarrow>
      mul c other = NotImplemented \<and> truediv c other = Inr NotImplemented)"
  by (cases other) (simp_all add: add_def sub_def mul_def truediv_def)

theorem unsupported_operand_not_implemented_witness:
  "\<not> isinstance_Coordinate (PyStr ''a'') \<and> \<not> isinstance_Real (PyStr ''a'')
   \<and> add (Coordinate2 1 2) (PyStr ''a'') = NotImplemented
   \<and> sub (Coordinate2 1 2) (PyStr ''a'') = NotImplemented
   \<and> mul (Coordinate2 1 2) (PyStr ''a'') = NotImplemented
   \<and> truediv (Coordinate2 1 2) (PyStr ''a'') = Inr NotImplemented"
  using unsupported_operand_not_implemented [of "PyStr ''a''" "Coordinate2 1 2"] by simp



section \<open>The conversions with rounding left out\<close>

text \<open>
  The facts of this section hold for the code computed over the reals. They say what
  the conversions, strict equality and addition do when no operation rounds; they
  say nothing about Python's \<open>float\<close>, where \<open>math.cos(math.tau / 4)\<close> and
  \<open>math.sin(math.tau)\<close> are small non-zero numbers and the exact comparisons of
  \<open>__eq__\<close> tell the two sides apart.
\<close>

lemma cos_pymod_tau: "cos (pymod t tau) = cos t"
proof -
  have "cos (t - (2 * pi) * of_int \<lfloor>t / tau\<rfloor>) = cos t"
    unfolding cos_diff by simp
  then show ?thesis by (simp add: pymod_def tau_def)
qed

lemma sin_pymod_tau: "sin (pymod t tau) = sin t"
proof -
  have "sin (t - (2 * pi) * of_int \<lfloor>t / tau\<rfloor>) = sin t"
    unfolding sin_diff by simp
  then show ?thesis by (simp add: pymod_def tau_def)
qed

text \<open>Normalising the angle does not move the point.\<close>

lemma to_rect_pos: "to_rect (pos c) = to_rect c"
  by (cases c) (simp add: to_rect_def pos_def x_def y_def r_def cos_pymod_tau sin_pymod_tau)

lemma sqrt_sum_squares_factor:
  fixes a b :: real
  assumes "a \<noteq> 0"
  shows "sqrt (a\<^sup>2 + b\<^sup>2) = \<bar>a\<bar> * sqrt (1 + (b / a)\<^sup>2)"
proof -
  have "a\<^sup>2 + b\<^sup>2 = a\<^sup>2 * (1 + (b / a)\<^sup>2)"
    using assms by (simp add: field_simps power2_eq_square)
  then show ?thesis
    by (simp add: real_sqrt_mult)
qed

lemma radius_cos_arctan:
  fixes a b :: real
  assumes "a \<noteq> 0"
  shows "sqrt (a\<^sup>2 + b\<^sup>2) * cos (arctan (b / a)) = \<bar>a\<bar>"
proof -
  have "0 < sqrt (1 + (b / a)\<^sup>2)"
    by (simp add: add_pos_nonneg)
  then show ?thesis
    by (simp add: sqrt_sum_squares_factor [OF assms] cos_arctan)
qed

lemma radius_sin_arctan:
  fixes a b :: real
  assumes "a \<noteq> 0"
  shows "sqrt (a\<^sup>2 + b\<^sup>2) * sin (arctan (b / a)) = \<bar>a\<bar> * (b / a)"
proof -
  have "0 < sqrt (1 + (b / a)\<^sup>2)"
    by (simp add: add_pos_nonneg)
  then show ?thesis
    by (simp add: sqrt_sum_squares_factor [OF assms] sin_arctan)
qed

text \<open>Converting to polar and back gives the same rectangular pair.\<close>

lemma to_rect_to_polar_rectangular:
  "to_rect (to_polar (Coordinate a b True)) = Coordinate a b True"
proof (cases "a = 0")
  case True
  have "cos (2 * pi * 3 / 4) = 0" "sin (2 * pi * 3 / 4) = - 1"
    using cos_3over2_pi sin_3over2_pi by (simp_all add: field_simps)
  then show ?thesis
    using True
    by (simp add: to_rect_def to_polar_def x_def y_def r_def abs_coordinate_def tau_def Let_def)
next
  case False
  then show ?thesis
    using radius_cos_arctan [OF False, of b] radius_sin_arctan [OF False, of b]
    by (simp add: to_rect_def to_polar_def x_def y_def r_def abs_coordinate_def Let_def)
qed

lemma to_rect_to_polar: "to_rect (to_polar c) = to_rect c"
proof (cases c)
  case (Coordinate a b flag)
  show ?thesis
  proof (cases flag)
    case True
    with Coordinate show ?thesis
      by (simp add: to_rect_to_polar_rectangular) (simp add: to_rect_def)
  next
    case False
    with Coordinate show ?thesis
      by (simp add: to_polar_def to_rect_pos)
  qed
qed

text \<open>Instances that \<open>__eq__\<close> accepts have the same rectangular form.\<close>

lemma eq_same_point:
  assumes "eq a b"
  shows "to_rect a = to_rect b"
proof (cases "is_rectangular b")
  case True
  have "eq (to_rect a) (to_rect b)"
  proof (cases "is_rectangular a")
    case True
    with assms \<open>is_rectangular b\<close> show ?thesis by (simp add: to_rect_def)
  next
    case False
    with assms \<open>is_rectangular b\<close> show ?thesis by (subst (asm) eq.simps) simp
  qed
  then have "x (to_rect a) = x (to_rect b) \<and> y (to_rect a) = y (to_rect b)"
    by (subst (asm) eq.simps) (simp add: to_rect_is_rectangular)
  then show ?thesis
    by (cases "to_rect a"; cases "to_rect b")
       (use to_rect_is_rectangular [of a] to_rect_is_rectangular [of b] in \<open>simp add: x_def y_def\<close>)
next
  case False
  from assms False have rt: "r a = r b" "pymod (theta a) tau = pymod (theta b) tau"
    by (subst (asm) eq.simps, simp)+
  have "to_rect a = to_rect (to_polar a)"
    by (simp add: to_rect_to_polar)
  also have "\<dots> = Coordinate (r a * cos (pymod (theta a) tau)) (r a * sin (pymod (theta a) tau)) True"
    by (cases a) (auto simp add: to_rect_def to_polar_def pos_def theta_def r_def abs_coordinate_def Let_def cos_pymod_tau sin_pymod_tau)
  also have "\<dots> = Coordinate (r b * cos (pymod (theta b) tau)) (r b * sin (pymod (theta b) tau)) True"
    by (simp add: rt)
  also have "\<dots> = to_rect b"
    using False by (simp add: to_rect_def theta_def r_def cos_pymod_tau sin_pymod_tau)
  finally show ?thesis .
qed

lemma eq_refl_exact: "eq a a"
  by (subst eq.simps, subst eq.simps) (simp add: to_rect_is_rectangular)

lemma eq_of_same_rect:
  assumes "is_rectangular b" "to_rect a = b"
  shows "eq a b"
proof (cases "is_rectangular a")
  case True
  with assms show ?thesis by (simp add: to_rect_def eq_refl_exact)
next
  case False
  have "eq (to_rect a) (to_rect b)"
    using assms by (simp add: to_rect_def eq_refl_exact)
  with False assms(1) show ?thesis by (subst eq.simps) simp
qed

text \<open>The two orders of an addition are accepted by \<open>__eq__\<close>.\<close>

lemma add_commutes_exact:
  assumes "add a (PyCoord b) = Returned s" "add b (PyCoord a) = Returned t"
  shows "eq s t"
proof -
  define p where "p = Coordinate (x (to_rect a) + x (to_rect b)) (y (to_rect a) + y (to_rect b)) True"
  have q: "Coordinate (x (to_rect b) + x (to_rect a)) (y (to_rect b) + y (to_rect a)) True = p"
    by (simp add: p_def add.commute)
  have s: "s = (if is_rectangular a then p else to_polar p)"
    using assms(1) by (auto simp add: add_def Let_def p_def split: if_splits)
  have t: "t = (if is_rectangular b then p else to_polar p)"
    using assms(2) by (auto simp add: add_def Let_def q split: if_splits)
  have rp: "is_rectangular p" by (simp add: p_def)
  have pp: "to_rect (to_polar p) = p"
    using rp by (simp add: to_rect_to_polar) (simp add: to_rect_def)
  show ?thesis
  proof (cases "is_rectangular b")
    case True
    then show ?thesis
      using s t rp pp by (auto intro: eq_of_same_rect eq_refl_exact)
  next
    case False
    have np: "\<not> is_rectangular (to_polar p)" by (rule to_polar_not_rectangular)
    have "eq p (to_polar p)"
      using rp np by (subst eq.simps) (simp add: theta_def r_def to_polar_def abs_coordinate_def Let_def)
    then show ?thesis
      using False s t by (auto intro: eq_refl_exact)
  qed
qed

end
